theory Spec2Isabelle
  imports Complex_Main "HOL-Library.Product_Lexorder" "HOL-Library.Multiset"
begin

section \<open>Data model\<close>

text \<open>
  The notebook \<^verbatim>\<open>framework.ipynb\<close> is a sequence of cells over pandas tables. A table is
  a list of rows in frame order, a row is a record of the columns the cells read, and a
  nullable column (NaN, NaT) has an \<open>option\<close> type. Account identifiers are a type
  parameter: the cells only compare them and sort them. Amounts and scores are floats
  in the notebook and reals here; no theorem below depends on rounding.

  The type of the transaction date is a parameter of the transaction rows. The loader
  sees the column as \<^verbatim>\<open>read_csv\<close> returns it, with cells of type \<open>date_value\<close>; the
  feature builder is modelled for a table whose date column is \<^verbatim>\<open>datetime64\<close>, with
  cells of type \<open>int option\<close>.

  An exception of the cell is a value of \<open>error\<close> on the left of a sum.
\<close>

datatype error = KeyError | ValueError

text \<open>
  A parsed date column holds nanoseconds since 1970-01-01 (\<^verbatim>\<open>datetime64[ns]\<close>), and a date
  string such as \<^verbatim>\<open>"2024-05-01"\<close> compared with it is midnight of that day.
\<close>

definition days_from_civil :: "int \<Rightarrow> int \<Rightarrow> int \<Rightarrow> int" where
  "days_from_civil y m d =
     (let y' = (if m \<le> 2 then y - 1 else y);
          era = y' div 400;
          yoe = y' - era * 400;
          doy = (153 * (if m > 2 then m - 3 else m + 9) + 2) div 5 + d - 1;
          doe = yoe * 365 + yoe div 4 - yoe div 100 + doy
      in era * 146097 + doe - 719468)"

definition Timestamp :: "int \<Rightarrow> int \<Rightarrow> int \<Rightarrow> int" where
  "Timestamp y m d = days_from_civil y m d * 86400 * 1000000000"

text \<open>
  \<^verbatim>\<open>read_csv(..., parse_dates=["transaction_date"])\<close> converts the column of each chunk as
  a whole. When every field converts, the cells are timestamps, and an empty field is
  missing (NaT). When some field does not convert, the column of that chunk is left as
  it was read: the cells are the texts of the fields, and an empty field is missing
  (NaN). A row is given with its cell as the read returns it.
\<close>

datatype date_value = Datetime int | Text string | Missing

record ('k, 'd) transaction =
  current_account_nbr :: 'k
  transaction_date :: 'd
  transaction_amt :: "real option"

record ('k, 'c) account_cols =
  current_account_nbr :: 'k
  client_id :: "'c option"
  open_date :: "int option"

record ('k, 'c) account = "('k, 'c) account_cols" +
  card_activation_date :: "int option"
  date_in_collection :: "string option"

record 'k rams_row =
  cu_account_nbr :: 'k
  cu_processing_date :: "int option"
  cu_crd_line :: "real option"
  cu_bhv_scr :: "real option"
  cu_crd_bureau_scr :: "real option"
  ca_avg_utilz_lst_3_mnths :: "real option"
  ca_nsf_count_lst_12_months :: "real option"
  ca_max_dlq_lst_6_mnths :: "real option"

record 'k fraud_case =
  current_account_nbr :: 'k
  reported_date :: "int option"

section \<open>Cell 2: loading, filtering and joining\<close>

subsection \<open>Chunked read of the two transaction files\<close>

text \<open>
  \<^verbatim>\<open>mask = (chunk["transaction_date"] >= "2024-05-01") & (chunk["transaction_date"] <= "2025-03-31")\<close>.
  The two bounds are string literals. Against a timestamp the literal is read as the
  midnight of its day. Against a text the comparison is that of Python strings: by the
  first character that differs, a proper prefix being smaller. A comparison with a
  missing value is False. Nothing in the loop looks at the type of the column.
\<close>

fun str_le :: "string \<Rightarrow> string \<Rightarrow> bool" where
  "str_le [] t = True"
| "str_le (a # s) [] = False"
| "str_le (a # s) (b # t) = ((of_char a :: nat) < of_char b \<or> (a = b \<and> str_le s t))"

definition mask :: "('k, date_value, 'z) transaction_scheme \<Rightarrow> bool" where
  "mask row =
     (case transaction_date row of
        Datetime t \<Rightarrow> Timestamp 2024 5 1 \<le> t \<and> t \<le> Timestamp 2025 3 31
      | Text s \<Rightarrow> str_le ''2024-05-01'' s \<and> str_le s ''2025-03-31''
      | Missing \<Rightarrow> False)"

text \<open>
  \<^verbatim>\<open>pd.read_csv(file, chunksize=100000)\<close> yields the rows of the file in pieces of at most
  \<open>chunksize\<close> rows; a file with a header and no rows yields one empty piece.
\<close>

fun chunks :: "nat \<Rightarrow> 'a list \<Rightarrow> 'a list list" where
  "chunks n xs = (if n = 0 \<or> xs = [] then [] else take n xs # chunks n (drop n xs))"

declare chunks.simps [simp del]

definition read_csv_chunks :: "nat \<Rightarrow> 'a list \<Rightarrow> 'a list list" where
  "read_csv_chunks chunksize rows = (if rows = [] then [[]] else chunks chunksize rows)"

text \<open>The inner loop: \<^verbatim>\<open>transactions_list.append(chunk.loc[mask])\<close> for each chunk.\<close>

fun append_chunks ::
  "('k, date_value, 'z) transaction_scheme list list \<Rightarrow> ('k, date_value, 'z) transaction_scheme list list
     \<Rightarrow> ('k, date_value, 'z) transaction_scheme list list" where
  "append_chunks transactions_list [] = transactions_list"
| "append_chunks transactions_list (chunk # rest) =
     append_chunks (transactions_list @ [filter mask chunk]) rest"

text \<open>The outer loop over the files.\<close>

fun read_files ::
  "('k, date_value, 'z) transaction_scheme list list \<Rightarrow> ('k, date_value, 'z) transaction_scheme list list
     \<Rightarrow> ('k, date_value, 'z) transaction_scheme list list" where
  "read_files transactions_list [] = transactions_list"
| "read_files transactions_list (file # files) =
     read_files (append_chunks transactions_list (read_csv_chunks 100000 file)) files"

definition transactions_list ::
  "('k, date_value, 'z) transaction_scheme list \<Rightarrow> ('k, date_value, 'z) transaction_scheme list
     \<Rightarrow> ('k, date_value, 'z) transaction_scheme list list" where
  "transactions_list transaction_fact wrld_stor_tran_fact =
     read_files [] [transaction_fact, wrld_stor_tran_fact]"

text \<open>
  \<^verbatim>\<open>pd.concat(objs, ignore_index=True)\<close> puts the rows of the frames one after the other
  and numbers them anew; with no frame at all it raises ValueError.
\<close>

definition pd_concat :: "'a list list \<Rightarrow> error + 'a list" where
  "pd_concat objs = (if objs = [] then Inl ValueError else Inr (concat objs))"

definition load_transactions ::
  "('k, date_value, 'z) transaction_scheme list \<Rightarrow> ('k, date_value, 'z) transaction_scheme list
     \<Rightarrow> error + ('k, date_value, 'z) transaction_scheme list" where
  "load_transactions transaction_fact wrld_stor_tran_fact =
     pd_concat (transactions_list transaction_fact wrld_stor_tran_fact)"

subsection \<open>Left joins\<close>

text \<open>
  \<^verbatim>\<open>left.merge(right, on=key, how="left")\<close>: the left rows in their order, each followed
  by the columns of every right row with the same key, in the right frame's order; a left
  row with no partner is kept once, with the right columns missing. A joined row is the
  left row paired with the right row, if any.
\<close>

definition merge_left ::
  "('a \<Rightarrow> 'k) \<Rightarrow> ('b \<Rightarrow> 'k) \<Rightarrow> 'a list \<Rightarrow> 'b list \<Rightarrow> ('a \<times> 'b option) list" where
  "merge_left left_on right_on left right =
     concat (map (\<lambda>l. case filter (\<lambda>r. right_on r = left_on l) right of
                         [] \<Rightarrow> [(l, None)]
                       | matches \<Rightarrow> map (\<lambda>r. (l, Some r)) matches) left)"

text \<open>A column of the right frame, read in a joined row: missing where no right row matched.\<close>

definition joined :: "('b \<Rightarrow> 'v option) \<Rightarrow> 'a \<times> 'b option \<Rightarrow> 'v option" where
  "joined col row = (case snd row of None \<Rightarrow> None | Some r \<Rightarrow> col r)"

text \<open>
  \<^verbatim>\<open>transactions.merge(accounts[["current_account_nbr", "client_id", "open_date"]],
  on="current_account_nbr", how="left")\<close>
\<close>

definition merge_accounts ::
  "('k, 'd) transaction list \<Rightarrow> ('k, 'c) account list
     \<Rightarrow> (('k, 'd) transaction \<times> ('k, 'c) account_cols option) list" where
  "merge_accounts transactions accounts =
     merge_left transaction.current_account_nbr account_cols.current_account_nbr
       transactions (map account_cols.truncate accounts)"

subsection \<open>Latest snapshot per account\<close>

text \<open>
  \<^verbatim>\<open>rams.sort_values(["cu_account_nbr", "cu_processing_date"], ascending=[True, False])\<close>
  sorts by several columns with a stable sort: account ascending, then date descending
  with the missing dates last. The key below orders the rows in just this way.
\<close>

definition date_descending :: "int option \<Rightarrow> nat \<times> int" where
  "date_descending d = (case d of None \<Rightarrow> (1, 0) | Some t \<Rightarrow> (0, - t))"

definition sort_values ::
  "('k::linorder, 'z) rams_row_scheme list \<Rightarrow> ('k, 'z) rams_row_scheme list" where
  "sort_values rams =
     sort_key (\<lambda>r. (cu_account_nbr r, date_descending (cu_processing_date r))) rams"

text \<open>
  \<^verbatim>\<open>drop_duplicates(subset=..., keep="first")\<close> walks the frame and keeps a row when its
  key has not been seen before.
\<close>

fun drop_duplicates :: "('a \<Rightarrow> 'k) \<Rightarrow> 'k list \<Rightarrow> 'a list \<Rightarrow> 'a list" where
  "drop_duplicates key seen [] = []"
| "drop_duplicates key seen (row # rows) =
     (if key row \<in> set seen then drop_duplicates key seen rows
      else row # drop_duplicates key (key row # seen) rows)"

definition rams_latest ::
  "('k::linorder, 'z) rams_row_scheme list \<Rightarrow> ('k, 'z) rams_row_scheme list" where
  "rams_latest rams = drop_duplicates cu_account_nbr [] (sort_values rams)"

text \<open>
  \<^verbatim>\<open>accounts = accounts.merge(rams_latest, on="current_account_nbr", how="left")\<close>, after the
  snapshot's account column has been renamed to the account table's.
\<close>

definition enrich_accounts ::
  "('k::linorder, 'c) account list \<Rightarrow> 'k rams_row list
     \<Rightarrow> (('k, 'c) account \<times> 'k rams_row option) list" where
  "enrich_accounts accounts rams =
     merge_left account_cols.current_account_nbr cu_account_nbr accounts (rams_latest rams)"

section \<open>Cell 8: the feature table\<close>

text \<open>
  The rows of \<^verbatim>\<open>transactions\<close> are by now the joined rows of cell 2, and \<^verbatim>\<open>accounts\<close> the
  account rows joined with their latest snapshot. The date column is taken to be
  \<^verbatim>\<open>datetime64\<close>, as it is when every chunk of the loader was converted (cell 4, which
  comes before, reads the column through \<^verbatim>\<open>.dt\<close>). The two windows are closed, and
  each ends at the midnight that begins its last day: from 2024-05-01 00:00 to
  2024-09-30 00:00, and from 2024-10-01 00:00 to 2024-12-31 00:00.
\<close>

definition between_dates :: "int \<Rightarrow> int \<Rightarrow> int option \<Rightarrow> bool" where
  "between_dates lo hi t = (case t of None \<Rightarrow> False | Some v \<Rightarrow> lo \<le> v \<and> v \<le> hi)"

definition msk :: "('k, int option, 'z) transaction_scheme \<times> 'b \<Rightarrow> bool" where
  "msk row =
     between_dates (Timestamp 2024 5 1) (Timestamp 2024 9 30) (transaction_date (fst row))"

definition msk_q4 :: "('k, int option, 'z) transaction_scheme \<times> 'b \<Rightarrow> bool" where
  "msk_q4 row =
     between_dates (Timestamp 2024 10 1) (Timestamp 2024 12 31) (transaction_date (fst row))"

text \<open>
  \<^verbatim>\<open>rows.groupby(key)[col].sum()\<close>: one entry for each key that occurs in the rows, the keys
  in ascending order, the missing values of the column skipped by the sum.
\<close>

definition groupby_sum ::
  "('r \<Rightarrow> 'k::linorder) \<Rightarrow> ('r \<Rightarrow> real option) \<Rightarrow> 'r list \<Rightarrow> ('k \<times> real) list" where
  "groupby_sum key col rows =
     map (\<lambda>k. (k, sum_list (map (\<lambda>r. case col r of None \<Rightarrow> 0 | Some v \<Rightarrow> v)
                               (filter (\<lambda>r. key r = k) rows))))
         (sort (remdups (map key rows)))"

definition may_sep_2024 ::
  "(('k::linorder, int option) transaction \<times> 'b) list \<Rightarrow> ('k \<times> real) list" where
  "may_sep_2024 transactions =
     groupby_sum (\<lambda>row. transaction.current_account_nbr (fst row))
       (\<lambda>row. transaction_amt (fst row)) (filter msk transactions)"

definition q4_2024 ::
  "(('k::linorder, int option) transaction \<times> 'b) list \<Rightarrow> ('k \<times> real) list" where
  "q4_2024 transactions =
     groupby_sum (\<lambda>row. transaction.current_account_nbr (fst row))
       (\<lambda>row. transaction_amt (fst row)) (filter msk_q4 transactions)"

text \<open>\<^verbatim>\<open>left.join(right, how="inner")\<close> on the index: the pairs of rows with equal index.\<close>

definition join_inner ::
  "('a \<Rightarrow> 'k) \<Rightarrow> 'a list \<Rightarrow> ('k \<times> 'v) list \<Rightarrow> ('a \<times> 'v) list" where
  "join_inner index left right =
     concat (map (\<lambda>l. map (\<lambda>r. (l, snd r)) (filter (\<lambda>r. fst r = index l) right)) left)"

record 'k feature_row =
  current_account_nbr :: 'k
  spend_MaySep_2024 :: real
  spend_Q4_2024 :: real
  cu_crd_line :: real
  cu_crd_bureau_scr :: real

text \<open>\<^verbatim>\<open>fillna(0)\<close> on a value of the frame.\<close>

definition fillna :: "real \<Rightarrow> real option \<Rightarrow> real" where
  "fillna v x = (case x of None \<Rightarrow> v | Some y \<Rightarrow> y)"

definition features_df ::
  "(('k::linorder, int option) transaction \<times> 'b) list \<Rightarrow> (('k, 'c) account \<times> 'k rams_row option) list
     \<Rightarrow> 'k feature_row list" where
  "features_df transactions accounts =
     (let inner = join_inner fst (may_sep_2024 transactions) (q4_2024 transactions);
          left = merge_left (\<lambda>f. fst (fst f))
                   (\<lambda>a. account_cols.current_account_nbr (fst a)) inner accounts
      in map (\<lambda>(((k, may_sep), q4), a).
                \<lparr> current_account_nbr = k,
                  spend_MaySep_2024 = fillna 0 (Some may_sep),
                  spend_Q4_2024 = fillna 0 (Some q4),
                  cu_crd_line =
                    fillna 0 (case a of None \<Rightarrow> None | Some r \<Rightarrow> joined rams_row.cu_crd_line r),
                  cu_crd_bureau_scr =
                    fillna 0 (case a of None \<Rightarrow> None
                              | Some r \<Rightarrow> joined rams_row.cu_crd_bureau_scr r) \<rparr>) left)"

section \<open>Cell 11: spending tiers\<close>

text \<open>
  \<^verbatim>\<open>bins = [0, 1000, 10000, float("inf")]\<close>: an edge is a finite number or infinity. The
  predicted values are the finite outputs of the regressor.
\<close>

datatype edge = Fin real | PInf

fun edge_below :: "edge \<Rightarrow> real \<Rightarrow> bool" where
  "edge_below (Fin b) x = (b < x)"
| "edge_below PInf x = False"

fun edge_le :: "edge \<Rightarrow> edge \<Rightarrow> bool" where
  "edge_le (Fin a) (Fin b) = (a \<le> b)"
| "edge_le (Fin a) PInf = True"
| "edge_le PInf (Fin b) = False"
| "edge_le PInf PInf = True"

text \<open>
  \<^verbatim>\<open>pd.cut(x, bins, labels=labels)\<close> with the default \<^verbatim>\<open>right=True, include_lowest=False\<close>:
  \<^verbatim>\<open>bins.searchsorted(x, side="left")\<close> counts the edges below the value, so that the
  intervals are open on the left and closed on the right; a value at or below the first
  edge, or above the last one, has no category. Edges that decrease, edges that repeat
  (unless there are just two) and a wrong number of labels raise ValueError.
\<close>

definition searchsorted_left :: "edge list \<Rightarrow> real \<Rightarrow> nat" where
  "searchsorted_left bins x = length (takeWhile (\<lambda>b. edge_below b x) bins)"

definition cut_value :: "edge list \<Rightarrow> 'l list \<Rightarrow> real \<Rightarrow> 'l option" where
  "cut_value bins labels x =
     (let ids = searchsorted_left bins x
      in if ids = 0 \<or> ids = length bins then None else Some (labels ! (ids - 1)))"

definition pd_cut :: "real list \<Rightarrow> edge list \<Rightarrow> 'l list \<Rightarrow> error + 'l option list" where
  "pd_cut x bins labels =
     (if \<not> sorted_wrt edge_le bins then Inl ValueError
      else if \<not> distinct bins \<and> length bins \<noteq> 2 then Inl ValueError
      else if length labels \<noteq> length bins - 1 then Inl ValueError
      else Inr (map (cut_value bins labels) x))"

definition bins :: "edge list" where
  "bins = [Fin 0, Fin 1000, Fin 10000, PInf]"

definition labels :: "string list" where
  "labels = [''Low'', ''Medium'', ''High'']"

definition spending_tier :: "real list \<Rightarrow> error + string option list" where
  "spending_tier predicted_Q4_2025 = pd_cut predicted_Q4_2025 bins labels"

text \<open>
  \<^verbatim>\<open>value_counts()\<close> of a categorical column: the number of rows of each category, the
  rows with no category left out. (It prints the categories by falling count; the order
  is not part of the model.)
\<close>

definition value_counts :: "'l list \<Rightarrow> 'l option list \<Rightarrow> ('l \<times> nat) list" where
  "value_counts categories column =
     map (\<lambda>c. (c, length (filter (\<lambda>v. v = Some c) column))) categories"

definition tier_counts :: "real list \<Rightarrow> error + (string \<times> nat) list" where
  "tier_counts predicted_Q4_2025 =
     (case spending_tier predicted_Q4_2025 of
        Inl e \<Rightarrow> Inl e
      | Inr column \<Rightarrow> Inr (value_counts labels column))"

section \<open>Cell 15: risk labels\<close>

record 'k risk_features_row =
  current_account_nbr :: 'k
  cu_bhv_scr :: "real option"
  cu_crd_bureau_scr :: "real option"
  ca_avg_utilz_lst_3_mnths :: "real option"
  ca_nsf_count_lst_12_months :: "real option"
  ca_max_dlq_lst_6_mnths :: "real option"

definition risk_features ::
  "(('k, 'c) account \<times> 'k rams_row option) list \<Rightarrow> 'k risk_features_row list" where
  "risk_features accounts =
     map (\<lambda>a. \<lparr> current_account_nbr = account_cols.current_account_nbr (fst a),
                cu_bhv_scr = joined rams_row.cu_bhv_scr a,
                cu_crd_bureau_scr = joined rams_row.cu_crd_bureau_scr a,
                ca_avg_utilz_lst_3_mnths = joined rams_row.ca_avg_utilz_lst_3_mnths a,
                ca_nsf_count_lst_12_months = joined rams_row.ca_nsf_count_lst_12_months a,
                ca_max_dlq_lst_6_mnths = joined rams_row.ca_max_dlq_lst_6_mnths a \<rparr>) accounts"

text \<open>
  A Series is the list of its (index label, value) pairs. \<^verbatim>\<open>pd.Series(0, index=...)\<close> is
  the constant one.
\<close>

definition Series :: "'v \<Rightarrow> 'k list \<Rightarrow> ('k \<times> 'v) list" where
  "Series v index = map (\<lambda>i. (i, v)) index"

text \<open>
  \<^verbatim>\<open>series.loc[keys] = v\<close> with a list of labels: every label of the list must be in the
  index, or the assignment raises KeyError and the Series is left as it was; otherwise
  each row with one of the labels gets the value.
\<close>

definition loc_assign :: "('k \<times> 'v) list \<Rightarrow> 'k list \<Rightarrow> 'v \<Rightarrow> error + ('k \<times> 'v) list" where
  "loc_assign series keys v =
     (if list_ex (\<lambda>k. k \<notin> set (map fst series)) keys then Inl KeyError
      else Inr (map (\<lambda>row. if fst row \<in> set keys then (fst row, v) else row) series))"

text \<open>
  \<^verbatim>\<open>set(fraud_cases["current_account_nbr"])\<close>, listed: each account of the table once. (The
  order of a Python set is not fixed; \<open>loc_assign\<close> uses the keys as a set.)
\<close>

definition fraud_accounts :: "('k, 'z) fraud_case_scheme list \<Rightarrow> 'k list" where
  "fraud_accounts fraud_cases = remdups (map fraud_case.current_account_nbr fraud_cases)"

definition collections_accounts ::
  "(('k, 'c) account \<times> 'k rams_row option) list \<Rightarrow> 'k list" where
  "collections_accounts accounts =
     map (\<lambda>a. account_cols.current_account_nbr (fst a))
       (filter (\<lambda>a. date_in_collection (fst a) \<noteq> None) accounts)"

text \<open>
  The variable \<^verbatim>\<open>risk_labels\<close> is changed in place by the two assignments. The model
  gives its value when the statements end, together with the exception that ended them,
  if any: an assignment that raises leaves the variable as it was.
\<close>

definition risk_labels ::
  "(('k, 'c) account \<times> 'k rams_row option) list \<Rightarrow> ('k, 'z) fraud_case_scheme list
     \<Rightarrow> ('k \<times> int) list \<times> error option" where
  "risk_labels accounts fraud_cases =
     (let initial =
            Series 0 (map risk_features_row.current_account_nbr (risk_features accounts))
      in case loc_assign initial (fraud_accounts fraud_cases) 1 of
           Inl e \<Rightarrow> (initial, Some e)
         | Inr marked \<Rightarrow>
             (case loc_assign marked (collections_accounts accounts) 1 of
                Inl e \<Rightarrow> (marked, Some e)
              | Inr marked_twice \<Rightarrow> (marked_twice, None)))"

text \<open>
  \<^verbatim>\<open>risk_data = risk_features.join(risk_labels, how="inner")\<close> is reached when no
  assignment has raised.
\<close>

definition risk_data ::
  "(('k, 'c) account \<times> 'k rams_row option) list \<Rightarrow> ('k, 'z) fraud_case_scheme list
     \<Rightarrow> error + ('k risk_features_row \<times> int) list" where
  "risk_data accounts fraud_cases =
     (case risk_labels accounts fraud_cases of
        (labelled, Some e) \<Rightarrow> Inl e
      | (labelled, None) \<Rightarrow>
          Inr (join_inner risk_features_row.current_account_nbr (risk_features accounts)
                 labelled))"

section \<open>Example tables\<close>

text \<open>Small tables on which the definitions above are run in the sections that follow.\<close>

definition example_transaction_fact :: "(nat, date_value) transaction list" where
  "example_transaction_fact =
     [\<lparr> transaction.current_account_nbr = 1, transaction_date = Datetime (Timestamp 2024 5 1),
        transaction_amt = Some 20 \<rparr>,
      \<lparr> transaction.current_account_nbr = 2, transaction_date = Datetime (Timestamp 2024 4 30),
        transaction_amt = Some 5 \<rparr>,
      \<lparr> transaction.current_account_nbr = 1, transaction_date = Datetime (Timestamp 2024 10 15),
        transaction_amt = Some 30 \<rparr>,
      \<lparr> transaction.current_account_nbr = 3, transaction_date = Datetime (Timestamp 2024 11 1),
        transaction_amt = Some 7 \<rparr>]"

definition example_wrld_stor_tran_fact :: "(nat, date_value) transaction list" where
  "example_wrld_stor_tran_fact =
     [\<lparr> transaction.current_account_nbr = 1, transaction_date = Datetime (Timestamp 2025 3 31),
        transaction_amt = None \<rparr>,
      \<lparr> transaction.current_account_nbr = 4, transaction_date = Missing,
        transaction_amt = Some 1 \<rparr>,
      \<lparr> transaction.current_account_nbr = 5, transaction_date = Datetime (Timestamp 2024 7 1),
        transaction_amt = Some 3 \<rparr>,
      \<lparr> transaction.current_account_nbr = 5, transaction_date = Datetime (Timestamp 2024 12 31),
        transaction_amt = Some 4 \<rparr>]"

definition example_transactions :: "(nat, date_value) transaction list" where
  "example_transactions =
     [\<lparr> transaction.current_account_nbr = 1, transaction_date = Datetime (Timestamp 2024 5 1),
        transaction_amt = Some 20 \<rparr>,
      \<lparr> transaction.current_account_nbr = 1, transaction_date = Datetime (Timestamp 2024 10 15),
        transaction_amt = Some 30 \<rparr>,
      \<lparr> transaction.current_account_nbr = 3, transaction_date = Datetime (Timestamp 2024 11 1),
        transaction_amt = Some 7 \<rparr>,
      \<lparr> transaction.current_account_nbr = 1, transaction_date = Datetime (Timestamp 2025 3 31),
        transaction_amt = None \<rparr>,
      \<lparr> transaction.current_account_nbr = 5, transaction_date = Datetime (Timestamp 2024 7 1),
        transaction_amt = Some 3 \<rparr>,
      \<lparr> transaction.current_account_nbr = 5, transaction_date = Datetime (Timestamp 2024 12 31),
        transaction_amt = Some 4 \<rparr>]"

text \<open>
  A chunk whose date column was not converted, because of the field \<^verbatim>\<open>2024-13-01\<close>: its
  cells are the texts of the fields.
\<close>

definition example_unconverted :: "(nat, date_value) transaction list" where
  "example_unconverted =
     [\<lparr> transaction.current_account_nbr = 6, transaction_date = Text ''2024-06-01'',
        transaction_amt = Some 11 \<rparr>,
      \<lparr> transaction.current_account_nbr = 6, transaction_date = Text ''2024-13-01'',
        transaction_amt = Some 12 \<rparr>,
      \<lparr> transaction.current_account_nbr = 7, transaction_date = Text ''2024/01/15'',
        transaction_amt = Some 13 \<rparr>,
      \<lparr> transaction.current_account_nbr = 7, transaction_date = Text ''2023-01-01'',
        transaction_amt = Some 14 \<rparr>]"

text \<open>The loaded example table with a \<^verbatim>\<open>datetime64\<close> date column, as the later cells read it.\<close>

definition example_dated_transactions :: "(nat, int option) transaction list" where
  "example_dated_transactions =
     [\<lparr> transaction.current_account_nbr = 1, transaction_date = Some (Timestamp 2024 5 1),
        transaction_amt = Some 20 \<rparr>,
      \<lparr> transaction.current_account_nbr = 1, transaction_date = Some (Timestamp 2024 10 15),
        transaction_amt = Some 30 \<rparr>,
      \<lparr> transaction.current_account_nbr = 3, transaction_date = Some (Timestamp 2024 11 1),
        transaction_amt = Some 7 \<rparr>,
      \<lparr> transaction.current_account_nbr = 1, transaction_date = Some (Timestamp 2025 3 31),
        transaction_amt = None \<rparr>,
      \<lparr> transaction.current_account_nbr = 5, transaction_date = Some (Timestamp 2024 7 1),
        transaction_amt = Some 3 \<rparr>,
      \<lparr> transaction.current_account_nbr = 5, transaction_date = Some (Timestamp 2024 12 31),
        transaction_amt = Some 4 \<rparr>]"

text \<open>
  Transactions of account 2 (with a snapshot), of account 3 (in the account table, with
  no snapshot) and of account 9 (not in the account table), in both windows.
\<close>

definition example_active_transactions :: "(nat, int option) transaction list" where
  "example_active_transactions =
     [\<lparr> transaction.current_account_nbr = 3, transaction_date = Some (Timestamp 2024 6 10),
        transaction_amt = Some 15 \<rparr>,
      \<lparr> transaction.current_account_nbr = 3, transaction_date = Some (Timestamp 2024 11 20),
        transaction_amt = Some 25 \<rparr>,
      \<lparr> transaction.current_account_nbr = 2, transaction_date = Some (Timestamp 2024 9 30),
        transaction_amt = Some 8 \<rparr>,
      \<lparr> transaction.current_account_nbr = 2, transaction_date = Some (Timestamp 2024 10 1),
        transaction_amt = None \<rparr>,
      \<lparr> transaction.current_account_nbr = 9, transaction_date = Some (Timestamp 2024 7 4),
        transaction_amt = Some 12 \<rparr>,
      \<lparr> transaction.current_account_nbr = 9, transaction_date = Some (Timestamp 2024 12 24),
        transaction_amt = Some 40 \<rparr>]"

definition example_accounts :: "(nat, nat) account list" where
  "example_accounts =
     [\<lparr> account_cols.current_account_nbr = 1, client_id = Some 10, open_date = Some (Timestamp 2020 1 15),
        card_activation_date = None, date_in_collection = None \<rparr>,
      \<lparr> account_cols.current_account_nbr = 2, client_id = None, open_date = None,
        card_activation_date = None, date_in_collection = Some ''2024-08-01'' \<rparr>,
      \<lparr> account_cols.current_account_nbr = 3, client_id = Some 12, open_date = Some (Timestamp 2023 6 1),
        card_activation_date = Some (Timestamp 2023 6 9), date_in_collection = None \<rparr>]"

definition example_rams :: "nat rams_row list" where
  "example_rams =
     [\<lparr> cu_account_nbr = 2, cu_processing_date = Some (Timestamp 2025 1 31),
        cu_crd_line = Some 1000, cu_bhv_scr = None, cu_crd_bureau_scr = Some 700,
        ca_avg_utilz_lst_3_mnths = None, ca_nsf_count_lst_12_months = None,
        ca_max_dlq_lst_6_mnths = None \<rparr>,
      \<lparr> cu_account_nbr = 1, cu_processing_date = None,
        cu_crd_line = Some 2000, cu_bhv_scr = None, cu_crd_bureau_scr = None,
        ca_avg_utilz_lst_3_mnths = None, ca_nsf_count_lst_12_months = None,
        ca_max_dlq_lst_6_mnths = None \<rparr>,
      \<lparr> cu_account_nbr = 1, cu_processing_date = Some (Timestamp 2025 2 28),
        cu_crd_line = Some 3000, cu_bhv_scr = Some 650, cu_crd_bureau_scr = Some 720,
        ca_avg_utilz_lst_3_mnths = Some 40, ca_nsf_count_lst_12_months = Some 0,
        ca_max_dlq_lst_6_mnths = Some 0 \<rparr>,
      \<lparr> cu_account_nbr = 1, cu_processing_date = Some (Timestamp 2024 12 31),
        cu_crd_line = Some 4000, cu_bhv_scr = None, cu_crd_bureau_scr = None,
        ca_avg_utilz_lst_3_mnths = None, ca_nsf_count_lst_12_months = None,
        ca_max_dlq_lst_6_mnths = None \<rparr>,
      \<lparr> cu_account_nbr = 1, cu_processing_date = Some (Timestamp 2025 2 28),
        cu_crd_line = Some 5000, cu_bhv_scr = None, cu_crd_bureau_scr = None,
        ca_avg_utilz_lst_3_mnths = None, ca_nsf_count_lst_12_months = None,
        ca_max_dlq_lst_6_mnths = None \<rparr>]"

definition example_fraud_cases :: "nat fraud_case list" where
  "example_fraud_cases =
     [\<lparr> fraud_case.current_account_nbr = 1, reported_date = Some (Timestamp 2024 9 9) \<rparr>,
      \<lparr> fraud_case.current_account_nbr = 1, reported_date = None \<rparr>]"

definition example_fraud_cases_unknown :: "nat fraud_case list" where
  "example_fraud_cases_unknown =
     [\<lparr> fraud_case.current_account_nbr = 1, reported_date = Some (Timestamp 2024 9 9) \<rparr>,
      \<lparr> fraud_case.current_account_nbr = 4, reported_date = None \<rparr>]"

section \<open>Properties of the loader\<close>

lemma concat_chunks: "n \<noteq> 0 \<Longrightarrow> concat (chunks n xs) = xs"
proof (induction n xs rule: chunks.induct)
  case (1 n xs)
  show ?case
  proof (cases "xs = []")
    case True
    then show ?thesis by (simp add: chunks.simps)
  next
    case False
    with 1 have "concat (chunks n (drop n xs)) = drop n xs" by simp
    with False 1(2) show ?thesis by (subst chunks.simps) simp
  qed
qed

lemma concat_read_csv_chunks: "concat (read_csv_chunks 100000 rows) = rows"
  by (simp add: read_csv_chunks_def concat_chunks)

lemma read_csv_chunks_not_Nil: "read_csv_chunks 100000 rows \<noteq> []"
  by (cases rows) (simp_all add: read_csv_chunks_def chunks.simps)

lemma append_chunks_eq: "append_chunks acc cs = acc @ map (filter mask) cs"
  by (induction cs arbitrary: acc) simp_all

lemma read_files_eq:
  "read_files acc files =
     acc @ concat (map (\<lambda>file. map (filter mask) (read_csv_chunks 100000 file)) files)"
  by (induction files arbitrary: acc) (simp_all add: append_chunks_eq)

lemma transactions_list_eq:
  "transactions_list tf ws =
     map (filter mask) (read_csv_chunks 100000 tf) @
     map (filter mask) (read_csv_chunks 100000 ws)"
  by (simp add: transactions_list_def read_files_eq)

lemma transactions_list_not_Nil: "transactions_list tf ws \<noteq> []"
  by (simp add: transactions_list_eq read_csv_chunks_not_Nil)

lemma concat_map_filter: "concat (map (filter P) xss) = filter P (concat xss)"
  by (induction xss) simp_all

lemma concat_transactions_list:
  "concat (transactions_list tf ws) = filter mask tf @ filter mask ws"
  by (simp add: transactions_list_eq concat_map_filter concat_read_csv_chunks)

lemma load_transactions_eq:
  "load_transactions tf ws = Inr (filter mask tf @ filter mask ws)"
  by (simp add: load_transactions_def pd_concat_def transactions_list_not_Nil
      concat_transactions_list)

lemma load_example:
  "load_transactions example_transaction_fact example_wrld_stor_tran_fact =
     Inr example_transactions"
  by (simp add: load_transactions_eq mask_def Timestamp_def
      days_from_civil_def example_transaction_fact_def example_wrld_stor_tran_fact_def
      example_transactions_def)

text \<open>
  What the loader keeps. The load succeeds, and a row is loaded when its cell passes the
  two comparisons: a timestamp between the midnights of 2024-05-01 and of 2025-03-31, or
  a text that as a string is between the two literals. A row with a missing date is
  dropped.
\<close>

lemma loaded_rows_pass_mask:
  "\<exists>transactions.
     load_transactions transaction_fact wrld_stor_tran_fact = Inr transactions \<and>
     (\<forall>row \<in> set transactions.
        case transaction_date row of
          Datetime t \<Rightarrow> Timestamp 2024 5 1 \<le> t \<and> t \<le> Timestamp 2025 3 31
        | Text s \<Rightarrow> str_le ''2024-05-01'' s \<and> str_le s ''2025-03-31''
        | Missing \<Rightarrow> False) \<and>
     (\<forall>row \<in> set transaction_fact \<union> set wrld_stor_tran_fact.
        \<not> mask row \<longrightarrow> row \<notin> set transactions)"
  by (auto simp: load_transactions_eq mask_def)

text \<open>
  When \<^verbatim>\<open>read_csv\<close> has converted the date column of every chunk, every loaded row has
  a timestamp in the closed range.
\<close>

lemma loaded_converted_within_range:
  assumes "\<forall>row \<in> set transaction_fact \<union> set wrld_stor_tran_fact.
             \<forall>s. transaction_date row \<noteq> Text s"
  shows "\<exists>transactions.
     load_transactions transaction_fact wrld_stor_tran_fact = Inr transactions \<and>
     (\<forall>row \<in> set transactions.
        \<exists>t. transaction_date row = Datetime t \<and>
            Timestamp 2024 5 1 \<le> t \<and> t \<le> Timestamp 2025 3 31)"
proof -
  have "\<exists>t. transaction_date row = Datetime t \<and>
            Timestamp 2024 5 1 \<le> t \<and> t \<le> Timestamp 2025 3 31"
    if "row \<in> set transaction_fact \<union> set wrld_stor_tran_fact" and "mask row" for row
  proof (cases "transaction_date row")
    case (Datetime t)
    with that(2) show ?thesis by (simp add: mask_def)
  next
    case (Text s)
    with assms that(1) show ?thesis by blast
  next
    case Missing
    with that(2) show ?thesis by (simp add: mask_def)
  qed
  then show ?thesis
    by (auto simp: load_transactions_eq)
qed

text \<open>
  C5, at a chunk whose date column was not converted. The claim is that every loaded
  row has a timestamp from 2024-05-01 to 2025-03-31. The four rows of
  \<open>example_unconverted\<close> are compared as text. The loader drops the row of
  \<^verbatim>\<open>2023-01-01\<close> and keeps the other three: next to the row of \<^verbatim>\<open>2024-06-01\<close> it loads
  the row of \<^verbatim>\<open>2024-13-01\<close>, which is no date, and the row of \<^verbatim>\<open>2024/01/15\<close>, a day
  three months before the window.
\<close>

theorem unconverted_dates_loaded:
  "load_transactions example_unconverted example_wrld_stor_tran_fact =
     Inr (take 3 example_unconverted @
          [example_wrld_stor_tran_fact ! 0, example_wrld_stor_tran_fact ! 2,
           example_wrld_stor_tran_fact ! 3]) \<and>
   map transaction_date (take 3 example_unconverted) =
     [Text ''2024-06-01'', Text ''2024-13-01'', Text ''2024/01/15'']"
  by (simp add: load_transactions_eq mask_def Timestamp_def days_from_civil_def
      example_unconverted_def example_wrld_stor_tran_fact_def)

text \<open>
  C6. The unified transaction table is the concatenation of the filtered pieces that
  the loader collected: its number of rows is the sum of their numbers of rows, and its
  rows, counted with multiplicity, are theirs. Nothing is dropped, doubled or merged by
  key; the table is the filtered first file followed by the filtered second file.
\<close>

theorem unified_row_count:
  "load_transactions transaction_fact wrld_stor_tran_fact =
     Inr (concat (transactions_list transaction_fact wrld_stor_tran_fact)) \<and>
   length (concat (transactions_list transaction_fact wrld_stor_tran_fact)) =
     sum_list (map length (transactions_list transaction_fact wrld_stor_tran_fact)) \<and>
   mset (concat (transactions_list transaction_fact wrld_stor_tran_fact)) =
     sum_list (map mset (transactions_list transaction_fact wrld_stor_tran_fact)) \<and>
   concat (transactions_list transaction_fact wrld_stor_tran_fact) =
     filter mask transaction_fact @ filter mask wrld_stor_tran_fact"
  by (simp add: load_transactions_def pd_concat_def transactions_list_not_Nil
      concat_transactions_list [symmetric] length_concat mset_concat)

theorem unified_row_count_witness:
  "load_transactions example_transaction_fact example_wrld_stor_tran_fact =
     Inr example_transactions \<and>
   length example_transactions =
     sum_list (map length
       (transactions_list example_transaction_fact example_wrld_stor_tran_fact)) \<and>
   length example_transactions = 6"
proof -
  note inst = unified_row_count [of example_transaction_fact example_wrld_stor_tran_fact]
  from inst load_example
  have eq: "concat (transactions_list example_transaction_fact example_wrld_stor_tran_fact) =
      example_transactions"
    by simp
  from inst have
    "length (concat (transactions_list example_transaction_fact example_wrld_stor_tran_fact)) =
       sum_list (map length
         (transactions_list example_transaction_fact example_wrld_stor_tran_fact))"
    by blast
  then have "length example_transactions =
      sum_list (map length
        (transactions_list example_transaction_fact example_wrld_stor_tran_fact))"
    by (simp only: eq)
  moreover have "length example_transactions = 6"
    by (simp add: example_transactions_def)
  ultimately show ?thesis
    using load_example by blast
qed

section \<open>Properties of the joins\<close>

lemma filter_key_distinct:
  "distinct (map f xs) \<Longrightarrow>
     filter (\<lambda>r. f r = k) xs = (case find (\<lambda>r. f r = k) xs of None \<Rightarrow> [] | Some a \<Rightarrow> [a])"
proof (induction xs)
  case Nil
  then show ?case by simp
next
  case (Cons x xs)
  show ?case
  proof (cases "f x = k")
    case True
    from Cons.prems have "f x \<notin> f ` set xs" by simp
    with True have "\<forall>r \<in> set xs. f r \<noteq> k" by blast
    then have "filter (\<lambda>r. f r = k) xs = []" by (simp add: filter_empty_conv)
    with True show ?thesis by simp
  next
    case False
    with Cons show ?thesis by simp
  qed
qed

lemma merge_left_distinct:
  assumes "distinct (map right_on right)"
  shows "merge_left left_on right_on left right =
           map (\<lambda>l. (l, find (\<lambda>r. right_on r = left_on l) right)) left"
proof -
  have "(case filter (\<lambda>r. right_on r = left_on l) right of
           [] \<Rightarrow> [(l, None)] | matches \<Rightarrow> map (\<lambda>r. (l, Some r)) matches) =
        [(l, find (\<lambda>r. right_on r = left_on l) right)]" for l
    by (simp add: filter_key_distinct [OF assms] split: option.split)
  then show ?thesis
    by (simp add: merge_left_def)
qed

lemma find_map: "find P (map f xs) = map_option f (find (\<lambda>x. P (f x)) xs)"
  by (induction xs) simp_all

lemma truncate_key [simp]:
  "account_cols.current_account_nbr (account_cols.truncate a) = account_cols.current_account_nbr a"
  "client_id (account_cols.truncate a) = client_id a"
  "open_date (account_cols.truncate a) = open_date a"
  by (simp_all add: account_cols.truncate_def)

lemma merge_accounts_distinct:
  assumes "distinct (map account_cols.current_account_nbr accounts)"
  shows "merge_accounts transactions accounts =
           map (\<lambda>t. (t, map_option account_cols.truncate
                          (find (\<lambda>a. account_cols.current_account_nbr a =
                                      transaction.current_account_nbr t) accounts)))
               transactions"
proof -
  have "distinct (map account_cols.current_account_nbr (map account_cols.truncate accounts))"
    using assms by (simp add: comp_def)
  then show ?thesis
    by (simp add: merge_accounts_def merge_left_distinct find_map comp_def)
qed

text \<open>
  C7. When the account identifier is unique in the account table, the left join of the
  transactions with the account columns has the transaction rows themselves as its left
  parts, in the same order: each transaction row is there once, with its fields as they
  were. A row whose account identifier is in no account row has the joined columns
  \<open>client_id\<close> and \<open>open_date\<close> missing; otherwise they are those of the one account
  row with that identifier.
\<close>

theorem merge_preserves_transactions:
  assumes "distinct (map account_cols.current_account_nbr accounts)"
  shows "map fst (merge_accounts transactions accounts) = transactions \<and>
         (\<forall>row \<in> set (merge_accounts transactions accounts).
            case find (\<lambda>a. account_cols.current_account_nbr a =
                           transaction.current_account_nbr (fst row)) accounts of
              None \<Rightarrow> snd row = None \<and> joined client_id row = None \<and> joined open_date row = None
            | Some a \<Rightarrow> joined client_id row = client_id a \<and> joined open_date row = open_date a)"
  by (auto simp: merge_accounts_distinct [OF assms] comp_def joined_def map_idI
      split: option.splits)


theorem merge_preserves_transactions_witness:
  "distinct (map account_cols.current_account_nbr example_accounts) \<and>
   map fst (merge_accounts example_transactions example_accounts) = example_transactions \<and>
   (example_transactions ! 4, None) \<in>
     set (merge_accounts example_transactions example_accounts) \<and>
   find (\<lambda>a. account_cols.current_account_nbr a =
           transaction.current_account_nbr (example_transactions ! 4)) example_accounts = None \<and>
   joined client_id (example_transactions ! 4, None :: (nat, nat) account_cols option) = None \<and>
   joined open_date (example_transactions ! 4, None :: (nat, nat) account_cols option) = None"
proof -
  have d: "distinct (map account_cols.current_account_nbr example_accounts)"
    by (simp add: example_accounts_def)
  have m: "(example_transactions ! 4, None) \<in>
     set (merge_accounts example_transactions example_accounts)"
    by (simp add: merge_accounts_def merge_left_def example_transactions_def
        example_accounts_def account_cols.truncate_def)
  have f: "find (\<lambda>a. account_cols.current_account_nbr a =
           transaction.current_account_nbr (example_transactions ! 4)) example_accounts = None"
    by (simp add: example_transactions_def example_accounts_def)
  note inst = merge_preserves_transactions [OF d, of example_transactions]
  from inst m have
    "case find (\<lambda>a. account_cols.current_account_nbr a =
             transaction.current_account_nbr (fst (example_transactions ! 4,
               None :: (nat, nat) account_cols option))) example_accounts of
       None \<Rightarrow> snd (example_transactions ! 4, None :: (nat, nat) account_cols option) = None \<and>
         joined client_id (example_transactions ! 4, None :: (nat, nat) account_cols option) = None \<and>
         joined open_date (example_transactions ! 4, None :: (nat, nat) account_cols option) = None
     | Some a \<Rightarrow>
         joined client_id (example_transactions ! 4, None :: (nat, nat) account_cols option) = client_id a \<and>
         joined open_date (example_transactions ! 4, None :: (nat, nat) account_cols option) = open_date a"
    by blast
  with f have
    "joined client_id (example_transactions ! 4, None :: (nat, nat) account_cols option) = None \<and>
     joined open_date (example_transactions ! 4, None :: (nat, nat) account_cols option) = None"
    by simp
  with inst d m f show ?thesis by blast
qed

section \<open>Properties of the snapshot deduplication\<close>










lemma rams_latest_example: "rams_latest example_rams = [example_rams ! 2, example_rams ! 0]"
  by (simp add: rams_latest_def sort_values_def example_rams_def date_descending_def
      Timestamp_def days_from_civil_def less_eq_prod_def less_prod_def)


section \<open>The joins on the example tables\<close>

lemma enrich_example:
  "enrich_accounts example_accounts example_rams =
     [(example_accounts ! 0, Some (example_rams ! 2)),
      (example_accounts ! 1, Some (example_rams ! 0)),
      (example_accounts ! 2, None)]"
  unfolding enrich_accounts_def rams_latest_example
  by (simp add: merge_left_def example_accounts_def example_rams_def)

lemma enrich_example_index:
  "map (\<lambda>a. account_cols.current_account_nbr (fst a))
     (enrich_accounts example_accounts example_rams) = [1, 2, 3]"
  unfolding enrich_example by (simp add: example_accounts_def)

lemma features_example:
  "features_df (merge_accounts example_dated_transactions example_accounts)
          (enrich_accounts example_accounts example_rams) =
     [\<lparr> feature_row.current_account_nbr = 1, spend_MaySep_2024 = 20, spend_Q4_2024 = 30,
        cu_crd_line = 3000, cu_crd_bureau_scr = 720 \<rparr>,
      \<lparr> feature_row.current_account_nbr = 5, spend_MaySep_2024 = 3, spend_Q4_2024 = 4,
        cu_crd_line = 0, cu_crd_bureau_scr = 0 \<rparr>]"
  unfolding enrich_example
  by (simp add: features_df_def may_sep_2024_def q4_2024_def groupby_sum_def join_inner_def
      merge_accounts_def merge_left_def
      msk_def msk_q4_def between_dates_def Timestamp_def days_from_civil_def
      example_dated_transactions_def example_accounts_def example_rams_def
      account_cols.truncate_def joined_def fillna_def)

lemma features_active_example:
  "features_df (merge_accounts example_active_transactions example_accounts)
          (enrich_accounts example_accounts example_rams) =
     [\<lparr> feature_row.current_account_nbr = 2, spend_MaySep_2024 = 8, spend_Q4_2024 = 0,
        cu_crd_line = 1000, cu_crd_bureau_scr = 700 \<rparr>,
      \<lparr> feature_row.current_account_nbr = 3, spend_MaySep_2024 = 15, spend_Q4_2024 = 25,
        cu_crd_line = 0, cu_crd_bureau_scr = 0 \<rparr>,
      \<lparr> feature_row.current_account_nbr = 9, spend_MaySep_2024 = 12, spend_Q4_2024 = 40,
        cu_crd_line = 0, cu_crd_bureau_scr = 0 \<rparr>]"
  unfolding enrich_example
  by (simp add: features_df_def may_sep_2024_def q4_2024_def groupby_sum_def join_inner_def
      merge_accounts_def merge_left_def
      msk_def msk_q4_def between_dates_def Timestamp_def days_from_civil_def
      example_active_transactions_def example_accounts_def example_rams_def
      account_cols.truncate_def joined_def fillna_def)

section \<open>Properties of the feature table\<close>

lemma groupby_sum_keys: "fst ` set (groupby_sum key col rows) = key ` set rows"
  by (simp add: groupby_sum_def image_image)

lemma join_inner_mem:
  "(l, v) \<in> set (join_inner index left right) \<longleftrightarrow>
     l \<in> set left \<and> (index l, v) \<in> set right"
  unfolding join_inner_def by (auto simp: image_iff)

lemma merge_left_one:
  "set (case filter P right of [] \<Rightarrow> [(l, None)] | matches \<Rightarrow> map (\<lambda>r. (l, Some r)) matches) =
     (if \<forall>r \<in> set right. \<not> P r then {(l, None)}
      else (\<lambda>r. (l, Some r)) ` {r \<in> set right. P r})"
proof (cases "filter P right")
  case Nil
  then show ?thesis by (simp add: filter_empty_conv)
next
  case (Cons m ms)
  then have "set (filter P right) = set (m # ms)" by simp
  moreover from this have "\<not> (\<forall>r \<in> set right. \<not> P r)" by auto
  ultimately show ?thesis using Cons by (simp del: set_filter add: set_filter [symmetric])
qed

lemma merge_left_mem:
  "(l, x) \<in> set (merge_left left_on right_on left right) \<longleftrightarrow>
     l \<in> set left \<and>
     (case x of
        None \<Rightarrow> \<forall>r \<in> set right. right_on r \<noteq> left_on l
      | Some r \<Rightarrow> r \<in> set right \<and> right_on r = left_on l)"
  unfolding merge_left_def set_concat set_map
  by (auto simp: merge_left_one split: option.splits if_splits)


lemma merge_left_fst: "fst ` set (merge_left left_on right_on left right) = set left"
proof
  show "fst ` set (merge_left left_on right_on left right) \<subseteq> set left"
    by (auto simp: merge_left_mem)
next
  show "set left \<subseteq> fst ` set (merge_left left_on right_on left right)"
  proof
    fix l assume l: "l \<in> set left"
    show "l \<in> fst ` set (merge_left left_on right_on left right)"
    proof (cases "\<forall>r \<in> set right. right_on r \<noteq> left_on l")
      case True
      with l have "(l, None) \<in> set (merge_left left_on right_on left right)"
        by (simp add: merge_left_mem)
      then show ?thesis by force
    next
      case False
      then obtain r where "r \<in> set right" "right_on r = left_on l" by blast
      with l have "(l, Some r) \<in> set (merge_left left_on right_on left right)"
        by (simp add: merge_left_mem)
      then show ?thesis by force
    qed
  qed
qed

lemma may_sep_keys:
  "fst ` set (may_sep_2024 transactions) =
     {k. \<exists>row \<in> set transactions. transaction.current_account_nbr (fst row) = k \<and> msk row}"
  by (auto simp: may_sep_2024_def groupby_sum_keys)

lemma q4_keys:
  "fst ` set (q4_2024 transactions) =
     {k. \<exists>row \<in> set transactions. transaction.current_account_nbr (fst row) = k \<and> msk_q4 row}"
  by (auto simp: q4_2024_def groupby_sum_keys)

lemma inner_keys:
  "(\<lambda>f. fst (fst f)) ` set (join_inner fst may q4) = fst ` set may \<inter> fst ` set q4"
proof
  show "(\<lambda>f. fst (fst f)) ` set (join_inner fst may q4) \<subseteq> fst ` set may \<inter> fst ` set q4"
    by (force simp: join_inner_mem)
next
  show "fst ` set may \<inter> fst ` set q4 \<subseteq> (\<lambda>f. fst (fst f)) ` set (join_inner fst may q4)"
  proof
    fix k assume "k \<in> fst ` set may \<inter> fst ` set q4"
    then obtain s q where "(k, s) \<in> set may" "(k, q) \<in> set q4" by force
    then have "((k, s), q) \<in> set (join_inner fst may q4)"
      by (simp add: join_inner_mem)
    then show "k \<in> (\<lambda>f. fst (fst f)) ` set (join_inner fst may q4)" by force
  qed
qed

lemma features_df_keys:
  "set (map feature_row.current_account_nbr (features_df transactions accounts)) =
     fst ` set (may_sep_2024 transactions) \<inter> fst ` set (q4_2024 transactions)"
proof -
  let ?inner = "join_inner fst (may_sep_2024 transactions) (q4_2024 transactions)"
  let ?left = "merge_left (\<lambda>f. fst (fst f))
                   (\<lambda>a. account_cols.current_account_nbr (fst a)) ?inner accounts"
  have "map feature_row.current_account_nbr (features_df transactions accounts) =
      map (\<lambda>row. fst (fst (fst row))) ?left"
    by (simp add: features_df_def Let_def comp_def split_def)
  then have "set (map feature_row.current_account_nbr (features_df transactions accounts)) =
      (\<lambda>f. fst (fst f)) ` fst ` set ?left"
    by (simp add: image_image)
  then show ?thesis
    by (simp only: merge_left_fst inner_keys)
qed

lemma features_df_fill:
  assumes "f \<in> set (features_df transactions accounts)"
  shows "(feature_row.current_account_nbr f \<notin>
            set (map (\<lambda>a. account_cols.current_account_nbr (fst a)) accounts) \<and>
          feature_row.cu_crd_line f = 0 \<and> feature_row.cu_crd_bureau_scr f = 0) \<or>
         (\<exists>acc \<in> set accounts.
            account_cols.current_account_nbr (fst acc) = feature_row.current_account_nbr f \<and>
            feature_row.cu_crd_line f =
              (case snd acc of
                 None \<Rightarrow> 0
               | Some snapshot \<Rightarrow>
                   (case rams_row.cu_crd_line snapshot of None \<Rightarrow> 0 | Some v \<Rightarrow> v)) \<and>
            feature_row.cu_crd_bureau_scr f =
              (case snd acc of
                 None \<Rightarrow> 0
               | Some snapshot \<Rightarrow>
                   (case rams_row.cu_crd_bureau_scr snapshot of None \<Rightarrow> 0 | Some v \<Rightarrow> v)))"
proof -
  let ?inner = "join_inner fst (may_sep_2024 transactions) (q4_2024 transactions)"
  let ?left = "merge_left (\<lambda>f. fst (fst f))
                   (\<lambda>a. account_cols.current_account_nbr (fst a)) ?inner accounts"
  from assms obtain k may_sep q4 a where
    row: "(((k, may_sep), q4), a) \<in> set ?left" and
    f: "f = \<lparr> feature_row.current_account_nbr = k,
                  spend_MaySep_2024 = fillna 0 (Some may_sep),
                  spend_Q4_2024 = fillna 0 (Some q4),
                  cu_crd_line =
                    fillna 0 (case a of None \<Rightarrow> None | Some r \<Rightarrow> joined rams_row.cu_crd_line r),
                  cu_crd_bureau_scr =
                    fillna 0 (case a of None \<Rightarrow> None
                              | Some r \<Rightarrow> joined rams_row.cu_crd_bureau_scr r) \<rparr>"
    by (force simp: features_df_def Let_def)
  show ?thesis
  proof (cases a)
    case None
    with row have "\<forall>r \<in> set accounts. account_cols.current_account_nbr (fst r) \<noteq> k"
      by (simp add: merge_left_mem)
    with None f show ?thesis by (auto simp: fillna_def)
  next
    case (Some r)
    with row have r: "r \<in> set accounts" "account_cols.current_account_nbr (fst r) = k"
      by (simp_all add: merge_left_mem)
    have "feature_row.cu_crd_line f =
              (case snd r of
                 None \<Rightarrow> 0
               | Some snapshot \<Rightarrow>
                   (case rams_row.cu_crd_line snapshot of None \<Rightarrow> 0 | Some v \<Rightarrow> v))"
      "feature_row.cu_crd_bureau_scr f =
              (case snd r of
                 None \<Rightarrow> 0
               | Some snapshot \<Rightarrow>
                   (case rams_row.cu_crd_bureau_scr snapshot of None \<Rightarrow> 0 | Some v \<Rightarrow> v))"
      using f Some by (simp_all add: fillna_def joined_def split: option.splits)
    with r f show ?thesis by auto
  qed
qed

text \<open>
  C4, as the feature builder is written. The feature table has a row for exactly the
  accounts with at least one transaction in the feature window (2024-05-01 00:00 to
  2024-09-30 00:00) and at least one in the label window (2024-10-01 00:00 to
  2024-12-31 00:00). An account with no transaction in the feature window therefore has
  no row, whether or not it is in the account table. In every row there is, the credit
  line and the bureau score are those of the latest snapshot of an account row with the
  same identifier, and zero where they are missing: when no account row has the
  identifier, when the account row has no snapshot, and when the value is missing in
  the snapshot.
\<close>

theorem feature_rows_need_history:
  "set (map feature_row.current_account_nbr (features_df transactions accounts)) =
     {k. (\<exists>row \<in> set transactions.
            transaction.current_account_nbr (fst row) = k \<and> msk row) \<and>
         (\<exists>row \<in> set transactions.
            transaction.current_account_nbr (fst row) = k \<and> msk_q4 row)} \<and>
   (\<forall>k. (\<forall>row \<in> set transactions.
            transaction.current_account_nbr (fst row) = k \<longrightarrow> \<not> msk row) \<longrightarrow>
        k \<notin> set (map feature_row.current_account_nbr (features_df transactions accounts))) \<and>
   (\<forall>f \<in> set (features_df transactions accounts).
      (feature_row.current_account_nbr f \<notin>
         set (map (\<lambda>a. account_cols.current_account_nbr (fst a)) accounts) \<and>
       feature_row.cu_crd_line f = 0 \<and> feature_row.cu_crd_bureau_scr f = 0) \<or>
      (\<exists>acc \<in> set accounts.
         account_cols.current_account_nbr (fst acc) = feature_row.current_account_nbr f \<and>
         feature_row.cu_crd_line f =
           (case snd acc of
              None \<Rightarrow> 0
            | Some snapshot \<Rightarrow>
                (case rams_row.cu_crd_line snapshot of None \<Rightarrow> 0 | Some v \<Rightarrow> v)) \<and>
         feature_row.cu_crd_bureau_scr f =
           (case snd acc of
              None \<Rightarrow> 0
            | Some snapshot \<Rightarrow>
                (case rams_row.cu_crd_bureau_scr snapshot of None \<Rightarrow> 0 | Some v \<Rightarrow> v))))"
proof (intro conjI)
  show keys: "set (map feature_row.current_account_nbr (features_df transactions accounts)) =
     {k. (\<exists>row \<in> set transactions.
            transaction.current_account_nbr (fst row) = k \<and> msk row) \<and>
         (\<exists>row \<in> set transactions.
            transaction.current_account_nbr (fst row) = k \<and> msk_q4 row)}"
    unfolding features_df_keys may_sep_keys q4_keys by blast
  show "\<forall>k. (\<forall>row \<in> set transactions.
            transaction.current_account_nbr (fst row) = k \<longrightarrow> \<not> msk row) \<longrightarrow>
        k \<notin> set (map feature_row.current_account_nbr (features_df transactions accounts))"
    unfolding keys by blast
  show "\<forall>f \<in> set (features_df transactions accounts).
      (feature_row.current_account_nbr f \<notin>
         set (map (\<lambda>a. account_cols.current_account_nbr (fst a)) accounts) \<and>
       feature_row.cu_crd_line f = 0 \<and> feature_row.cu_crd_bureau_scr f = 0) \<or>
      (\<exists>acc \<in> set accounts.
         account_cols.current_account_nbr (fst acc) = feature_row.current_account_nbr f \<and>
         feature_row.cu_crd_line f =
           (case snd acc of
              None \<Rightarrow> 0
            | Some snapshot \<Rightarrow>
                (case rams_row.cu_crd_line snapshot of None \<Rightarrow> 0 | Some v \<Rightarrow> v)) \<and>
         feature_row.cu_crd_bureau_scr f =
           (case snd acc of
              None \<Rightarrow> 0
            | Some snapshot \<Rightarrow>
                (case rams_row.cu_crd_bureau_scr snapshot of None \<Rightarrow> 0 | Some v \<Rightarrow> v)))"
    by (rule ballI) (rule features_df_fill)
qed

text \<open>
  On the example tables: account 3 of \<open>example_dated_transactions\<close> has no transaction
  in the feature window and gets no row. In \<open>example_active_transactions\<close> account 3,
  which is in the account table and has no snapshot, has transactions in both windows:
  its row has the credit line 0 and the bureau score 0, and the theorem leaves no other
  value for it.
\<close>

theorem feature_rows_need_history_witness:
  "filter (\<lambda>row. transaction.current_account_nbr (fst row) = 3 \<and> msk row)
     (merge_accounts example_dated_transactions example_accounts) = [] \<and>
   3 \<notin> set (map feature_row.current_account_nbr
     (features_df (merge_accounts example_dated_transactions example_accounts)
        (enrich_accounts example_accounts example_rams))) \<and>
   features_df (merge_accounts example_active_transactions example_accounts)
        (enrich_accounts example_accounts example_rams) ! 1 \<in>
     set (features_df (merge_accounts example_active_transactions example_accounts)
        (enrich_accounts example_accounts example_rams)) \<and>
   feature_row.current_account_nbr
     (features_df (merge_accounts example_active_transactions example_accounts)
        (enrich_accounts example_accounts example_rams) ! 1) = 3 \<and>
   filter (\<lambda>acc. account_cols.current_account_nbr (fst acc) = 3)
     (enrich_accounts example_accounts example_rams) = [(example_accounts ! 2, None)] \<and>
   feature_row.cu_crd_line
     (features_df (merge_accounts example_active_transactions example_accounts)
        (enrich_accounts example_accounts example_rams) ! 1) = 0 \<and>
   feature_row.cu_crd_bureau_scr
     (features_df (merge_accounts example_active_transactions example_accounts)
        (enrich_accounts example_accounts example_rams) ! 1) = 0"
proof -
  let ?accounts = "enrich_accounts example_accounts example_rams"
  let ?dated = "merge_accounts example_dated_transactions example_accounts"
  let ?active = "merge_accounts example_active_transactions example_accounts"
  let ?f = "features_df ?active ?accounts ! 1"
  have none: "filter (\<lambda>row. transaction.current_account_nbr (fst row) = 3 \<and> msk row)
     ?dated = []"
    by (simp add: merge_accounts_def merge_left_def msk_def between_dates_def Timestamp_def
        days_from_civil_def example_dated_transactions_def example_accounts_def
        account_cols.truncate_def)
  then have hyp: "\<forall>row \<in> set ?dated.
      transaction.current_account_nbr (fst row) = 3 \<longrightarrow> \<not> msk row"
    by (simp only: filter_empty_conv) blast
  from feature_rows_need_history [of ?dated ?accounts] hyp
  have omitted: "3 \<notin> set (map feature_row.current_account_nbr (features_df ?dated ?accounts))"
    by blast
  have member: "?f \<in> set (features_df ?active ?accounts)"
    by (simp add: features_active_example)
  have key: "feature_row.current_account_nbr ?f = 3"
    by (simp add: features_active_example)
  have only: "filter (\<lambda>acc. account_cols.current_account_nbr (fst acc) = 3) ?accounts =
      [(example_accounts ! 2, None)]"
    unfolding enrich_example by (simp add: example_accounts_def)
  then have accs: "\<forall>acc \<in> set ?accounts.
      account_cols.current_account_nbr (fst acc) = 3 \<longrightarrow> snd acc = None"
  proof (intro ballI impI)
    fix acc assume "acc \<in> set ?accounts"
      and "account_cols.current_account_nbr (fst acc) = 3"
    then have "acc \<in> set (filter (\<lambda>acc. account_cols.current_account_nbr (fst acc) = 3)
        ?accounts)"
      by simp
    with only show "snd acc = None" by simp
  qed
  from feature_rows_need_history [of ?active ?accounts] member
  have "(feature_row.current_account_nbr ?f \<notin>
         set (map (\<lambda>a. account_cols.current_account_nbr (fst a)) ?accounts) \<and>
       feature_row.cu_crd_line ?f = 0 \<and> feature_row.cu_crd_bureau_scr ?f = 0) \<or>
      (\<exists>acc \<in> set ?accounts.
         account_cols.current_account_nbr (fst acc) = feature_row.current_account_nbr ?f \<and>
         feature_row.cu_crd_line ?f =
           (case snd acc of
              None \<Rightarrow> 0
            | Some snapshot \<Rightarrow>
                (case rams_row.cu_crd_line snapshot of None \<Rightarrow> 0 | Some v \<Rightarrow> v)) \<and>
         feature_row.cu_crd_bureau_scr ?f =
           (case snd acc of
              None \<Rightarrow> 0
            | Some snapshot \<Rightarrow>
                (case rams_row.cu_crd_bureau_scr snapshot of None \<Rightarrow> 0 | Some v \<Rightarrow> v)))"
    by blast
  with accs have zero:
    "feature_row.cu_crd_line ?f = 0 \<and> feature_row.cu_crd_bureau_scr ?f = 0"
    unfolding key by force
  from none omitted member key only zero show ?thesis by blast
qed

text \<open>
  On the example tables account 3 is in the account table and has no transaction in the
  feature window: the feature table has rows for the accounts 1 and 5 only.
\<close>

theorem inactive_account_omitted:
  "3 \<in> set (map account_cols.current_account_nbr example_accounts) \<and>
   filter (\<lambda>row. transaction.current_account_nbr (fst row) = 3 \<and> msk row)
     (merge_accounts example_dated_transactions example_accounts) = [] \<and>
   map feature_row.current_account_nbr
     (features_df (merge_accounts example_dated_transactions example_accounts)
        (enrich_accounts example_accounts example_rams)) = [1, 5] \<and>
   3 \<notin> set (map feature_row.current_account_nbr
     (features_df (merge_accounts example_dated_transactions example_accounts)
        (enrich_accounts example_accounts example_rams)))"
proof -
  have "filter (\<lambda>row. transaction.current_account_nbr (fst row) = 3 \<and> msk row)
     (merge_accounts example_dated_transactions example_accounts) = []"
    by (simp add: merge_accounts_def merge_left_def msk_def between_dates_def Timestamp_def
        days_from_civil_def example_dated_transactions_def example_accounts_def
        account_cols.truncate_def)
  then show ?thesis
    by (simp add: features_example) (simp add: example_accounts_def)
qed

section \<open>Properties of the spending tiers\<close>

lemma cut_value_three:
  assumes "T0 < T1" and "T1 < T2"
  shows "cut_value [Fin T0, Fin T1, Fin T2, PInf] [low, medium, high] p =
           (if p \<le> T0 then None
            else if p \<le> T1 then Some low
            else if p \<le> T2 then Some medium
            else Some high)"
  using assms by (auto simp: cut_value_def searchsorted_left_def)

lemma pd_cut_three:
  assumes "T0 < T1" and "T1 < T2"
  shows "pd_cut x [Fin T0, Fin T1, Fin T2, PInf] [low, medium, high] =
           Inr (map (\<lambda>p. if p \<le> T0 then None
                         else if p \<le> T1 then Some low
                         else if p \<le> T2 then Some medium
                         else Some high) x)"
proof -
  have "map (cut_value [Fin T0, Fin T1, Fin T2, PInf] [low, medium, high]) x =
        map (\<lambda>p. if p \<le> T0 then None
                         else if p \<le> T1 then Some low
                         else if p \<le> T2 then Some medium
                         else Some high) x"
    by (rule map_cong [OF refl]) (rule cut_value_three [OF assms])
  with assms show ?thesis by (simp add: pd_cut_def)
qed

lemma spending_tier_eq:
  "spending_tier x =
     Inr (map (\<lambda>p. if p \<le> 0 then None
                   else if p \<le> 1000 then Some ''Low''
                   else if p \<le> 10000 then Some ''Medium''
                   else Some ''High'') x)"
  unfolding spending_tier_def bins_def labels_def by (rule pd_cut_three) simp_all

text \<open>
  What the bins as written give. With the lowest edge 0 and two thresholds
  \<open>0 < T1 < T2\<close>, a predicted value gets at most one tier: none when it is at most 0,
  Low when \<open>0 < predicted \<le> T1\<close>, Medium when \<open>T1 < predicted \<le> T2\<close>, High when
  \<open>predicted > T2\<close>. The notebook's thresholds are 1000 and 10000, and the predicted
  values 500, 5000 and 15000 get Low, Medium and High.
\<close>

lemma tier_thresholds:
  assumes "0 < T1" and "T1 < T2"
  shows "pd_cut x [Fin 0, Fin T1, Fin T2, PInf] labels =
           Inr (map (\<lambda>p. if p \<le> 0 then None
                         else if p \<le> T1 then Some ''Low''
                         else if p \<le> T2 then Some ''Medium''
                         else Some ''High'') x) \<and>
         spending_tier x = pd_cut x [Fin 0, Fin 1000, Fin 10000, PInf] labels \<and>
         spending_tier [500, 5000, 15000] = Inr [Some ''Low'', Some ''Medium'', Some ''High'']"
  using assms
  by (simp add: labels_def pd_cut_three spending_tier_eq)

lemma tier_thresholds_example:
  "(0::real) < 1000 \<and> (1000::real) < 10000 \<and>
   pd_cut [1000, 1000.01, 10000, 10000.5, 0.01] [Fin 0, Fin 1000, Fin 10000, PInf] labels =
     Inr [Some ''Low'', Some ''Medium'', Some ''Medium'', Some ''High'', Some ''Low'']"
  using tier_thresholds [of 1000 10000 "[1000, 1000.01, 10000, 10000.5, 0.01]"]
  by simp

text \<open>
  C2, at the predicted value 0. The claim, and the notebook's own text (Low is less
  than 1,000 dollars; accounts of 0 dollars of spend count as low), give Low to every
  predicted value at most the first threshold. The predicted value 0 is at most 1000
  and the code gives it no tier: \<^verbatim>\<open>pd.cut\<close> leaves the lowest edge out of the first bin
  (\<^verbatim>\<open>include_lowest\<close> is not set).
\<close>

theorem zero_spend_not_low:
  "(0::real) \<le> 1000 \<and> spending_tier [0] = Inr [None] \<and> spending_tier [0] \<noteq> Inr [Some ''Low'']"
  by (simp add: spending_tier_eq)

lemma count_tier_positive:
  "length (filter (\<lambda>v. v = Some c)
     (map (\<lambda>p. if p \<le> 0 then None
                   else if p \<le> 1000 then Some ''Low''
                   else if p \<le> 10000 then Some ''Medium''
                   else Some ''High'') (x::real list))) =
   length (filter (\<lambda>v. v = Some c)
     (map (\<lambda>p. if p \<le> 0 then None
                   else if p \<le> 1000 then Some ''Low''
                   else if p \<le> 10000 then Some ''Medium''
                   else Some ''High'') (filter (\<lambda>p. 0 < p) x)))"
  by (induction x) auto

lemma tier_counts_eq:
  "tier_counts x =
     Inr (value_counts labels
       (map (\<lambda>p. if p \<le> 0 then None
                   else if p \<le> 1000 then Some ''Low''
                   else if p \<le> 10000 then Some ''Medium''
                   else Some ''High'') x))"
  by (simp add: tier_counts_def spending_tier_eq)

lemma tier_counts_positive: "tier_counts (filter (\<lambda>p. 0 < p) x) = tier_counts x"
  unfolding tier_counts_eq value_counts_def
  by (simp only: count_tier_positive [symmetric])

lemma tier_counts_total:
  "sum_list (map snd (value_counts labels
       (map (\<lambda>p. if p \<le> 0 then None
                   else if p \<le> 1000 then Some ''Low''
                   else if p \<le> 10000 then Some ''Medium''
                   else Some ''High'') (x::real list)))) = length (filter (\<lambda>p. 0 < p) x)"
  by (induction x) (auto simp: value_counts_def labels_def)

text \<open>
  C10. The tier column is defined for every list of predicted values, and a row whose
  predicted value is at most 0 has no tier in it. The tier counts are the counts of the
  rows with a positive predicted value: they do not change when the other rows are
  removed, and they add up to the number of rows with a positive predicted value.
\<close>

theorem nonpositive_untiered:
  "\<exists>column counts.
     spending_tier predicted = Inr column \<and> length column = length predicted \<and>
     (\<forall>i < length predicted. predicted ! i \<le> 0 \<longrightarrow> column ! i = None) \<and>
     tier_counts predicted = Inr counts \<and>
     tier_counts (filter (\<lambda>p. 0 < p) predicted) = Inr counts \<and>
     sum_list (map snd counts) = length (filter (\<lambda>p. 0 < p) predicted)"
  unfolding tier_counts_positive
  by (simp add: spending_tier_eq tier_counts_eq tier_counts_total)

theorem nonpositive_untiered_witness:
  "spending_tier [500, 0, -3, 15000] = Inr [Some ''Low'', None, None, Some ''High''] \<and>
   tier_counts [500, 0, -3, 15000] = Inr [(''Low'', 1), (''Medium'', 0), (''High'', 1)] \<and>
   tier_counts (filter (\<lambda>p. 0 < p) [500, 0, -3, 15000]) =
     Inr [(''Low'', 1), (''Medium'', 0), (''High'', 1)]"
proof -
  from nonpositive_untiered [of "[500, 0, -3, 15000]"]
  obtain column counts where
    "spending_tier [500, 0, -3, 15000] = Inr column"
    "tier_counts [500, 0, -3, 15000] = Inr counts"
    "tier_counts (filter (\<lambda>p. 0 < p) [500, 0, -3, 15000]) = Inr counts"
    by blast
  moreover have "spending_tier [500, 0, -3, 15000] = Inr [Some ''Low'', None, None, Some ''High'']"
    by (simp add: spending_tier_eq)
  moreover have "tier_counts [500, 0, -3, 15000] = Inr [(''Low'', 1), (''Medium'', 0), (''High'', 1)]"
    by (simp add: tier_counts_eq value_counts_def labels_def)
  ultimately show ?thesis by simp
qed

section \<open>Properties of the risk labels\<close>

lemma loc_assign_fst:
  "loc_assign series keys v = Inr series' \<Longrightarrow> map fst series' = map fst series"
  by (auto simp: loc_assign_def list_ex_iff split: if_splits)

lemma loc_assign_Inr:
  "set keys \<subseteq> set (map fst series) \<Longrightarrow>
     loc_assign series keys v =
       Inr (map (\<lambda>row. if fst row \<in> set keys then (fst row, v) else row) series)"
  by (auto simp: loc_assign_def list_ex_iff)

lemma loc_assign_Inl:
  "\<not> set keys \<subseteq> set (map fst series) \<Longrightarrow> loc_assign series keys v = Inl KeyError"
  by (auto simp: loc_assign_def list_ex_iff)

text \<open>
  The assignment uses its list of labels as a set: the order in which the Python set of
  fraud accounts is listed has no effect on the labels.
\<close>

lemma loc_assign_set:
  "set keys = set keys' \<Longrightarrow> loc_assign series keys v = loc_assign series keys' v"
  by (simp add: loc_assign_def list_ex_iff)

lemma risk_features_index:
  "map risk_features_row.current_account_nbr (risk_features accounts) =
     map (\<lambda>a. account_cols.current_account_nbr (fst a)) accounts"
  by (simp add: risk_features_def comp_def)

lemma collections_accounts_subset:
  "set (collections_accounts accounts) \<subseteq>
     set (map (\<lambda>a. account_cols.current_account_nbr (fst a)) accounts)"
  by (auto simp: collections_accounts_def)

lemma map_fst_mark:
  "map fst (map (\<lambda>row. if P row then (fst row, v) else row) series) = map fst series"
  by (induction series) simp_all

lemma risk_labels_Inr:
  assumes "set (map fraud_case.current_account_nbr fraud_cases) \<subseteq>
             set (map (\<lambda>a. account_cols.current_account_nbr (fst a)) accounts)"
  shows "risk_labels accounts fraud_cases =
           (map (\<lambda>a. (account_cols.current_account_nbr (fst a),
                      if account_cols.current_account_nbr (fst a) \<in>
                           set (collections_accounts accounts) then 1
                      else if account_cols.current_account_nbr (fst a) \<in>
                           set (map fraud_case.current_account_nbr fraud_cases) then 1
                      else 0)) accounts, None)"
proof -
  define index where "index = map (\<lambda>a. account_cols.current_account_nbr (fst a)) accounts"
  define marked where
    "marked = map (\<lambda>row. if fst row \<in> set (fraud_accounts fraud_cases)
                          then (fst row, 1) else row) (Series (0::int) index)"
  have "set (fraud_accounts fraud_cases) \<subseteq> set (map fst (Series (0::int) index))"
    using assms by (simp add: fraud_accounts_def Series_def comp_def index_def)
  then have first: "loc_assign (Series (0::int) index) (fraud_accounts fraud_cases) 1 =
      Inr marked"
    unfolding marked_def by (rule loc_assign_Inr)
  have "map fst marked = index"
    unfolding marked_def map_fst_mark by (simp add: Series_def comp_def)
  with collections_accounts_subset [of accounts]
  have "set (collections_accounts accounts) \<subseteq> set (map fst marked)"
    by (simp add: index_def)
  then have second: "loc_assign marked (collections_accounts accounts) 1 =
      Inr (map (\<lambda>row. if fst row \<in> set (collections_accounts accounts)
                       then (fst row, 1) else row) marked)"
    by (rule loc_assign_Inr)
  have "risk_labels accounts fraud_cases =
      (map (\<lambda>row. if fst row \<in> set (collections_accounts accounts)
                   then (fst row, 1) else row) marked, None)"
    by (simp add: risk_labels_def risk_features_index first second flip: index_def)
  also have "map (\<lambda>row. if fst row \<in> set (collections_accounts accounts)
                       then (fst row, 1) else row) marked =
      map (\<lambda>a. (account_cols.current_account_nbr (fst a),
                          if account_cols.current_account_nbr (fst a) \<in>
                               set (collections_accounts accounts) then 1
                          else if account_cols.current_account_nbr (fst a) \<in>
                               set (map fraud_case.current_account_nbr fraud_cases) then 1
                          else 0)) accounts"
    by (simp add: marked_def Series_def index_def fraud_accounts_def comp_def)
  finally show ?thesis .
qed

lemma risk_labels_Inl:
  assumes "\<not> set (map fraud_case.current_account_nbr fraud_cases) \<subseteq>
             set (map (\<lambda>a. account_cols.current_account_nbr (fst a)) accounts)"
  shows "risk_labels accounts fraud_cases =
           (Series 0 (map (\<lambda>a. account_cols.current_account_nbr (fst a)) accounts),
            Some KeyError)"
proof -
  define index where "index = map (\<lambda>a. account_cols.current_account_nbr (fst a)) accounts"
  have "\<not> set (fraud_accounts fraud_cases) \<subseteq> set (map fst (Series (0::int) index))"
    using assms by (simp add: fraud_accounts_def Series_def comp_def index_def)
  then have "loc_assign (Series (0::int) index) (fraud_accounts fraud_cases) 1 = Inl KeyError"
    by (rule loc_assign_Inl)
  then show ?thesis
    by (simp add: risk_labels_def risk_features_index flip: index_def)
qed

lemma join_inner_set:
  "set (join_inner index left right) =
     {(l, snd r) | l r. l \<in> set left \<and> r \<in> set right \<and> fst r = index l}"
  unfolding join_inner_def by (simp add: set_eq_iff image_iff)

lemma join_inner_fst:
  assumes "index ` set left \<subseteq> fst ` set right"
  shows "fst ` set (join_inner index left right) = set left"
proof
  show "fst ` set (join_inner index left right) \<subseteq> set left"
    by (auto simp: join_inner_set)
next
  show "set left \<subseteq> fst ` set (join_inner index left right)"
  proof
    fix l assume l: "l \<in> set left"
    with assms obtain r where "r \<in> set right" "fst r = index l" by force
    with l have "(l, snd r) \<in> set (join_inner index left right)"
      unfolding join_inner_set by blast
    then show "l \<in> fst ` set (join_inner index left right)" by force
  qed
qed

text \<open>
  C3, as the label assignment is written. When every account of the fraud-case table is
  in the account table, the risk data are built, they hold every row of the risk
  features, and every row of an account of the fraud-case table has the label 1,
  whatever its feature values. When some account of the fraud-case table is not in the
  account table, the assignment raises KeyError, every label is still 0 and no risk data
  are built.
\<close>

theorem fraud_accounts_labelled:
  "if set (map fraud_case.current_account_nbr fraud_cases) \<subseteq>
        set (map (\<lambda>a. account_cols.current_account_nbr (fst a)) accounts)
   then \<exists>labelled.
          risk_data accounts fraud_cases = Inr labelled \<and>
          set (map fst labelled) = set (risk_features accounts) \<and>
          (\<forall>row \<in> set labelled.
             risk_features_row.current_account_nbr (fst row) \<in>
               set (map fraud_case.current_account_nbr fraud_cases) \<longrightarrow> snd row = 1)
   else risk_data accounts fraud_cases = Inl KeyError \<and>
        risk_labels accounts fraud_cases =
          (Series 0 (map (\<lambda>a. account_cols.current_account_nbr (fst a)) accounts),
           Some KeyError)"
proof (cases "set (map fraud_case.current_account_nbr fraud_cases) \<subseteq>
        set (map (\<lambda>a. account_cols.current_account_nbr (fst a)) accounts)")
  case True
  note labels = risk_labels_Inr [OF True]
  let ?labels = "map (\<lambda>a. (account_cols.current_account_nbr (fst a),
                          if account_cols.current_account_nbr (fst a) \<in>
                               set (collections_accounts accounts) then 1
                          else if account_cols.current_account_nbr (fst a) \<in>
                               set (map fraud_case.current_account_nbr fraud_cases) then 1
                          else (0::int))) accounts"
  let ?labelled = "join_inner risk_features_row.current_account_nbr (risk_features accounts) ?labels"
  have rd: "risk_data accounts fraud_cases = Inr ?labelled"
    by (simp add: risk_data_def labels)
  have "risk_features_row.current_account_nbr ` set (risk_features accounts) \<subseteq>
      fst ` set ?labels"
    by (simp add: risk_features_def image_image)
  then have "fst ` set ?labelled = set (risk_features accounts)"
    by (rule join_inner_fst)
  then have "set (map fst ?labelled) = set (risk_features accounts)"
    by simp
  moreover have "\<forall>row \<in> set ?labelled.
             risk_features_row.current_account_nbr (fst row) \<in>
               set (map fraud_case.current_account_nbr fraud_cases) \<longrightarrow> snd row = 1"
  proof (intro ballI impI)
    fix row assume "row \<in> set ?labelled"
      and fraud: "risk_features_row.current_account_nbr (fst row) \<in>
               set (map fraud_case.current_account_nbr fraud_cases)"
    then obtain l r where "row = (l, snd r)" "r \<in> set ?labels"
      "fst r = risk_features_row.current_account_nbr l"
      unfolding join_inner_set by blast
    with fraud show "snd row = 1" by auto
  qed
  ultimately show ?thesis using True rd by simp
next
  case False
  then show ?thesis
    by (simp add: risk_data_def risk_labels_Inl)
qed

theorem fraud_accounts_labelled_witness:
  "set (map fraud_case.current_account_nbr example_fraud_cases) \<subseteq>
     set (map (\<lambda>a. account_cols.current_account_nbr (fst a))
           (enrich_accounts example_accounts example_rams)) \<and>
   (\<exists>labelled row.
      risk_data (enrich_accounts example_accounts example_rams) example_fraud_cases =
        Inr labelled \<and>
      row \<in> set labelled \<and>
      risk_features_row.current_account_nbr (fst row) = 1 \<and>
      cu_bhv_scr (fst row) = Some 650 \<and> snd row = 1)"
proof -
  let ?accounts = "enrich_accounts example_accounts example_rams"
  have sub: "set (map fraud_case.current_account_nbr example_fraud_cases) \<subseteq>
     set (map (\<lambda>a. account_cols.current_account_nbr (fst a)) ?accounts)"
    unfolding enrich_example_index by (simp add: example_fraud_cases_def)
  from fraud_accounts_labelled [of example_fraud_cases ?accounts] sub
  obtain labelled where
    rd: "risk_data ?accounts example_fraud_cases = Inr labelled" and
    all: "set (map fst labelled) = set (risk_features ?accounts)" and
    one: "\<forall>row \<in> set labelled.
             risk_features_row.current_account_nbr (fst row) \<in>
               set (map fraud_case.current_account_nbr example_fraud_cases) \<longrightarrow> snd row = 1"
    by auto
  have "hd (risk_features ?accounts) \<in> set (risk_features ?accounts)"
    unfolding enrich_example by (simp add: risk_features_def)
  with all obtain row where row: "row \<in> set labelled" "fst row = hd (risk_features ?accounts)"
    by force
  have first: "risk_features_row.current_account_nbr (hd (risk_features ?accounts)) = 1"
    "cu_bhv_scr (hd (risk_features ?accounts)) = Some 650"
    unfolding enrich_example
    by (simp_all add: risk_features_def example_accounts_def example_rams_def joined_def)
  with row one have "snd row = 1"
    by (simp add: example_fraud_cases_def)
  with rd row first have
    "risk_data ?accounts example_fraud_cases = Inr labelled \<and>
      row \<in> set labelled \<and>
      risk_features_row.current_account_nbr (fst row) = 1 \<and>
      cu_bhv_scr (fst row) = Some 650 \<and> snd row = 1"
    by simp
  then have "\<exists>labelled row.
      risk_data ?accounts example_fraud_cases = Inr labelled \<and>
      row \<in> set labelled \<and>
      risk_features_row.current_account_nbr (fst row) = 1 \<and>
      cu_bhv_scr (fst row) = Some 650 \<and> snd row = 1"
    by blast
  with sub show ?thesis by blast
qed

text \<open>
  On the example tables account 1 is in the fraud-case table and in the account table,
  and account 4 is in the fraud-case table only: the assignment raises KeyError, and the
  label of account 1 is still 0.
\<close>

theorem unknown_fraud_account_raises:
  "1 \<in> set (map fraud_case.current_account_nbr example_fraud_cases_unknown) \<and>
   1 \<in> set (map risk_features_row.current_account_nbr
             (risk_features (enrich_accounts example_accounts example_rams))) \<and>
   risk_labels (enrich_accounts example_accounts example_rams) example_fraud_cases_unknown =
     ([(1, 0), (2, 0), (3, 0)], Some KeyError) \<and>
   risk_data (enrich_accounts example_accounts example_rams) example_fraud_cases_unknown =
     Inl KeyError"
proof -
  have "\<not> set (map fraud_case.current_account_nbr example_fraud_cases_unknown) \<subseteq>
      set (map (\<lambda>a. account_cols.current_account_nbr (fst a))
            (enrich_accounts example_accounts example_rams))"
    unfolding enrich_example_index by (simp add: example_fraud_cases_unknown_def)
  then have "risk_labels (enrich_accounts example_accounts example_rams)
      example_fraud_cases_unknown =
      (Series 0 (map (\<lambda>a. account_cols.current_account_nbr (fst a))
                   (enrich_accounts example_accounts example_rams)), Some KeyError)"
    by (rule risk_labels_Inl)
  then show ?thesis
    by (simp add: risk_data_def risk_features_index enrich_example_index Series_def
        example_fraud_cases_unknown_def)
qed

end
